theory Spec2Isabelle
  imports Main "HOL-Library.AList"
begin

section \<open>Shared vocabulary\<close>

text \<open>
  Values thrown by the code. The identity client throws \<open>NotFoundError\<close> and
  \<open>ConflictError\<close>; \<open>Error\<close> stands for every other error object, such as the one a
  failed request of an API client rejects with. Each carries its message.
\<close>

datatype js_error =
    NotFoundError (message: string)
  | ConflictError (message: string)
  | Error (message: string)

text \<open>
  A promise that has settled: the moment it settled and whether it was fulfilled
  (\<open>Inr\<close>) or rejected (\<open>Inl\<close>). The moment only matters to \<open>Promise.all\<close>, which
  rejects with the reason of the promise that rejects first.
\<close>

datatype 'a promise = Promise (settled_at: nat) (outcome: "js_error + 'a")

text \<open>
  JavaScript truthiness of a \<open>Maybe<string>\<close>: \<open>null\<close> and the empty string are
  falsy. \<open>truthy\<close> returns the string when the test \<open>if (s)\<close> passes.
\<close>

fun truthy :: "string option \<Rightarrow> string option" where
  "truthy None = None"
| "truthy (Some s) = (if s = [] then None else Some s)"


section \<open>CatalogIdentityClient\<close>

text \<open>
  \<open>Record<string, string>\<close> is an object: a list of entries in insertion order whose
  keys are unique. Assigning \<open>filter[k] = v\<close> is \<open>AList.update k v filter\<close>: it replaces
  the value of an existing key in place and appends a new key at the end.
  \<open>Object.entries(query.annotations)\<close> is the entry list of the query itself.
\<close>

type_synonym js_record = "(string \<times> string) list"

record UserQuery =
  annotations :: js_record

datatype catalog_request = GetEntities (filter_of: js_record)

text \<open>
  The catalog API is an external collaborator: \<open>getEntities\<close> answers a filter with
  a list of entities, or rejects. Entities are opaque (\<open>'u\<close>).
\<close>

record 'u CatalogApi =
  getEntities :: "js_record \<Rightarrow> js_error + 'u list"

text \<open>Lines 41 to 46 of \<open>findUser\<close>: the loop over the entries of the query.\<close>

fun annotation_entries :: "js_record \<Rightarrow> js_record \<Rightarrow> js_record" where
  "annotation_entries [] fltr = fltr"
| "annotation_entries ((key, val) # rest) fltr =
     annotation_entries rest (AList.update (''metadata.annotations.'' @ key) val fltr)"

definition user_filter :: "UserQuery \<Rightarrow> js_record" where
  "user_filter query = annotation_entries (annotations query) [(''kind'', ''user'')]"

text \<open>
  \<open>findUser\<close> returns the requests it sent to the catalog together with its result:
  \<open>Inl\<close> is the error thrown to the caller, \<open>Inr\<close> the user returned. A rejection of
  the awaited catalog call is not caught, so it reaches the caller as it is.
\<close>

definition findUser ::
  "'u CatalogApi \<Rightarrow> UserQuery \<Rightarrow> catalog_request list \<times> (js_error + 'u)" where
  "findUser catalogApi query =
     (let fltr = user_filter query in
      ([GetEntities fltr],
       (case getEntities catalogApi fltr of
          Inl e \<Rightarrow> Inl e
        | Inr users \<Rightarrow>
            if length users \<noteq> 1 then
              if length users > 1 then
                Inl (ConflictError ''User lookup resulted in multiple matches'')
              else Inl (NotFoundError ''User not found'')
            else Inr (users ! 0))))"


section \<open>CostInsightsPage\<close>

subsection \<open>Filters, requests and the cost API client\<close>

text \<open>
  The page filters. \<open>duration\<close> is only handed on to \<open>intervalsOf\<close>, so its type is
  left open (\<open>'d\<close>).
\<close>

record 'd PageFilters =
  group :: "string option"
  project :: "string option"
  duration :: 'd
  metric :: "string option"

text \<open>A call of one of the five fetch functions of the client, with its arguments.\<close>

datatype 'i cost_request =
    GetGroupProjects string
  | GetAlerts string
  | GetDailyMetricData string 'i
  | GetProjectDailyCost string 'i
  | GetGroupDailyCost string 'i

text \<open>
  The cost API client is an external collaborator: each function answers with a
  promise. Projects, alerts, metric data, costs and intervals are opaque
  (\<open>'p\<close>, \<open>'a\<close>, \<open>'m\<close>, \<open>'c\<close>, \<open>'i\<close>).
\<close>

record ('i, 'p, 'a, 'm, 'c) CostInsightsApi =
  getGroupProjects :: "string \<Rightarrow> 'p list promise"
  getAlerts :: "string \<Rightarrow> 'a list promise"
  getDailyMetricData :: "string \<Rightarrow> 'i \<Rightarrow> 'm promise"
  getProjectDailyCost :: "string \<Rightarrow> 'i \<Rightarrow> 'c promise"
  getGroupDailyCost :: "string \<Rightarrow> 'i \<Rightarrow> 'c promise"

subsection \<open>Loading state\<close>

text \<open>
  What the page takes from \<open>useLoading(mapLoadingToProps)\<close> (lines 66 to 75) and uses in
  the loader and in the first guard of the render: the list of loading actions, the
  flag of the initial load, and three dispatchers. The hook and the selector are not
  among the sources, so the loader takes them as a parameter: \<open>'l\<close> is the loading
  state the dispatchers act on, \<open>'k\<close> the type of \<open>loadingActions\<close>.
\<close>

record ('l, 'k) LoadingProps =
  loadingActions :: 'k
  loadingInitial :: "'l \<Rightarrow> bool"
  dispatchInitial :: "bool \<Rightarrow> 'l \<Rightarrow> 'l"
  dispatchInsights :: "bool \<Rightarrow> 'l \<Rightarrow> 'l"
  dispatchNone :: "'k \<Rightarrow> 'l \<Rightarrow> 'l"

text \<open>
  Modelled from the spec: the loading actions and the loading state behind
  \<open>useLoading\<close>, whose sources (the hooks and \<open>./selector\<close>) are missing. The state maps
  each loading action to its flag, \<open>True\<close> while loading. The page's own two actions
  are the initial load and the insights load; \<open>Action\<close> is any other action, named by
  a string.
\<close>

datatype loading_action = Initial | Insights | Action string

type_synonym loading_state = "loading_action \<Rightarrow> bool"

text \<open>
  Modelled from the spec: \<open>useLoading(mapLoadingToProps)\<close>, whose sources are missing.
  \<open>loadingInitial\<close> reads the flag of the initial load, \<open>dispatchInitial\<close> and
  \<open>dispatchInsights\<close> set the flag of the initial load and of the insights load, and
  \<open>dispatchNone\<close> clears the loading state: each of the given actions is put in its
  "not loading" state.
\<close>

definition useLoading ::
  "loading_action list \<Rightarrow> (loading_state, loading_action list) LoadingProps" where
  "useLoading actions =
     \<lparr>loadingActions = actions,
      loadingInitial = (\<lambda>l. l Initial),
      dispatchInitial = (\<lambda>isLoading l. l(Initial := isLoading)),
      dispatchInsights = (\<lambda>isLoading l. l(Insights := isLoading)),
      dispatchNone = (\<lambda>acts l a. if a \<in> set acts then False else l a)\<rparr>"

subsection \<open>Page state\<close>

text \<open>
  The \<open>useState\<close> cells of the page, all \<open>null\<close> at first, and the loading state.
\<close>

record ('p, 'a, 'm, 'c, 'l) PageState =
  projects :: "'p list option"
  dailyCost :: "'c option"
  metricData :: "'m option"
  alerts :: "'a list option"
  error :: "js_error option"
  loading :: 'l

text \<open>
  What the page reads from its other hooks. \<open>intervalsOf\<close> is imported from
  \<open>utils/duration\<close>, which is not among the sources, and is taken as a parameter.
\<close>

record ('d, 'i) PageContext =
  intervalsOf :: "'d \<Rightarrow> string \<Rightarrow> 'i"
  lastCompleteBillingDate :: string

text \<open>Lines 90 to 94.\<close>

definition setProject :: "string option \<Rightarrow> 'd PageFilters \<Rightarrow> 'd PageFilters" where
  "setProject p pageFilters = pageFilters\<lparr>project := (if p = Some ''all'' then None else p)\<rparr>"

subsection \<open>\<open>Promise.all\<close>\<close>

text \<open>
  Two promises awaited together: fulfilled with both values once both are fulfilled,
  rejected with the reason of the one that rejects first (the left one on a tie).
\<close>

fun both :: "'a promise \<Rightarrow> 'b promise \<Rightarrow> ('a \<times> 'b) promise" where
  "both (Promise t1 (Inr a)) (Promise t2 (Inr b)) = Promise (max t1 t2) (Inr (a, b))"
| "both (Promise t1 (Inl e)) (Promise t2 (Inr b)) = Promise t1 (Inl e)"
| "both (Promise t1 (Inr a)) (Promise t2 (Inl e)) = Promise t2 (Inl e)"
| "both (Promise t1 (Inl e1)) (Promise t2 (Inl e2)) =
     (if t1 \<le> t2 then Promise t1 (Inl e1) else Promise t2 (Inl e2))"

definition Promise_all ::
  "'a promise \<Rightarrow> 'b promise \<Rightarrow> 'c promise \<Rightarrow> 'd promise \<Rightarrow> ('a \<times> 'b \<times> 'c \<times> 'd) promise" where
  "Promise_all p1 p2 p3 p4 = both p1 (both p2 (both p3 p4))"

subsection \<open>The loader\<close>

text \<open>
  Lines 114 to 116, the third entry of the array given to \<open>Promise.all\<close>: the request
  issued, if any, and the promise. Without a metric the entry is \<open>null\<close>, which
  \<open>Promise.all\<close> treats as a value. The entry's value goes into a \<open>Maybe\<close> cell of
  the state, so fetched data is wrapped in \<open>Some\<close>.
\<close>

definition metric_entry ::
  "('i, 'p, 'a, 'm, 'c) CostInsightsApi \<Rightarrow> 'd PageFilters \<Rightarrow> 'i \<Rightarrow>
     'i cost_request list \<times> 'm option promise" where
  "metric_entry client pageFilters intervals =
     (case truthy (metric pageFilters) of
        Some m \<Rightarrow> ([GetDailyMetricData m intervals],
                   map_promise Some (getDailyMetricData client m intervals))
      | None \<Rightarrow> ([], Promise 0 (Inr None)))"

text \<open>Lines 117 to 119, the fourth entry; \<open>g\<close> is \<open>pageFilters.group\<close>.\<close>

definition daily_cost_entry ::
  "('i, 'p, 'a, 'm, 'c) CostInsightsApi \<Rightarrow> 'd PageFilters \<Rightarrow> string \<Rightarrow> 'i \<Rightarrow>
     'i cost_request list \<times> 'c promise" where
  "daily_cost_entry client pageFilters g intervals =
     (case truthy (project pageFilters) of
        Some p \<Rightarrow> ([GetProjectDailyCost p intervals], getProjectDailyCost client p intervals)
      | None \<Rightarrow> ([GetGroupDailyCost g intervals], getGroupDailyCost client g intervals))"

text \<open>
  Lines 100 to 130, the body of the \<open>try\<close> with its \<open>catch\<close>: the requests issued, in
  the order of the calls, and the state left behind. All the calls of the array are
  made before \<open>Promise.all\<close> is awaited; the state setters run only once it is
  fulfilled.
\<close>

definition try_fetch ::
  "('i, 'p, 'a, 'm, 'c) CostInsightsApi \<Rightarrow> ('d, 'i) PageContext \<Rightarrow> ('l, 'k) LoadingProps \<Rightarrow>
     'd PageFilters \<Rightarrow> ('p, 'a, 'm, 'c, 'l) PageState \<Rightarrow>
     'i cost_request list \<times> ('p, 'a, 'm, 'c, 'l) PageState" where
  "try_fetch client ctx props pageFilters st =
     (case truthy (group pageFilters) of
        Some g \<Rightarrow>
          (let st' = st\<lparr>loading := dispatchInsights props True (loading st)\<rparr>;
               intervals = intervalsOf ctx (duration pageFilters) (lastCompleteBillingDate ctx);
               p1 = getGroupProjects client g;
               p2 = getAlerts client g;
               (r3, p3) = metric_entry client pageFilters intervals;
               (r4, p4) = daily_cost_entry client pageFilters g intervals;
               requests = [GetGroupProjects g, GetAlerts g] @ r3 @ r4
           in case outcome (Promise_all p1 p2 p3 p4) of
                Inr (fetchedProjects, fetchedAlerts, fetchedMetricData, fetchedDailyCost) \<Rightarrow>
                  (requests,
                   st'\<lparr>projects := Some fetchedProjects,
                       alerts := Some fetchedAlerts,
                       metricData := fetchedMetricData,
                       dailyCost := Some fetchedDailyCost\<rparr>)
              | Inl e \<Rightarrow>
                  (requests,
                   st'\<lparr>error := Some e,
                       loading := dispatchNone props (loadingActions props) (loading st')\<rparr>))
      | None \<Rightarrow>
          ([], st\<lparr>loading := dispatchNone props (loadingActions props) (loading st)\<rparr>))"

text \<open>
  Lines 97 to 135: \<open>setError(null)\<close>, the \<open>try\<close>, and the \<open>finally\<close> block.
\<close>

definition getInsights ::
  "('i, 'p, 'a, 'm, 'c) CostInsightsApi \<Rightarrow> ('d, 'i) PageContext \<Rightarrow> ('l, 'k) LoadingProps \<Rightarrow>
     'd PageFilters \<Rightarrow> ('p, 'a, 'm, 'c, 'l) PageState \<Rightarrow>
     'i cost_request list \<times> ('p, 'a, 'm, 'c, 'l) PageState" where
  "getInsights client ctx props pageFilters st =
     (let (requests, st') = try_fetch client ctx props pageFilters (st\<lparr>error := None\<rparr>)
      in (requests,
          st'\<lparr>loading :=
                dispatchInsights props False (dispatchInitial props False (loading st'))\<rparr>))"

subsection \<open>Rendering\<close>

text \<open>
  Lines 153 to 184: which view the page returns. \<open>CostInsightsView\<close> stands for the
  populated dashboard of lines 224 to 294.
\<close>

datatype view =
    Progress
  | ErrorAlert string
  | NoGroupsView
  | CouldNotFetchAlert string
  | CostInsightsView

definition CostInsightsPage ::
  "('l, 'k) LoadingProps \<Rightarrow> 'd PageFilters \<Rightarrow> ('p, 'a, 'm, 'c, 'l) PageState \<Rightarrow> view" where
  "CostInsightsPage props pageFilters st =
     (if loadingInitial props (loading st) then Progress
      else case error st of
        Some e \<Rightarrow> ErrorAlert (message e)
      | None \<Rightarrow>
          (case truthy (group pageFilters) of
             None \<Rightarrow> NoGroupsView
           | Some g \<Rightarrow>
               if dailyCost st = None \<or> alerts st = None then CouldNotFetchAlert g
               else CostInsightsView))"


section \<open>Example inputs\<close>

text \<open>Concrete inputs on which the theorems below are instantiated.\<close>

definition example_query :: UserQuery where
  "example_query =
     \<lparr>annotations = [(''kind'', ''group''), (''google.com/email'', ''alice@example.com'')]\<rparr>"

definition example_catalog :: "string list \<Rightarrow> string CatalogApi" where
  "example_catalog users =
     \<lparr>getEntities = (\<lambda>fltr. if map_of fltr ''kind'' = Some ''user'' then Inr users
                              else Inl (Error ''unexpected filter''))\<rparr>"

definition failing_catalog :: "string CatalogApi" where
  "failing_catalog = \<lparr>getEntities = (\<lambda>fltr. Inl (Error ''catalog down''))\<rparr>"

definition example_context :: "(string, string) PageContext" where
  "example_context =
     \<lparr>intervalsOf = (\<lambda>d endDate. d @ ''/'' @ endDate),
      lastCompleteBillingDate = ''2020-10-01''\<rparr>"

definition example_loading :: "(loading_state, loading_action list) LoadingProps" where
  "example_loading = useLoading [Initial, Insights, Action ''products'']"

definition example_filters :: "string PageFilters" where
  "example_filters =
     \<lparr>group = Some ''team-a'', project = None, duration = ''P30D'', metric = None\<rparr>"

definition example_client :: "(string, string, string, string, string) CostInsightsApi" where
  "example_client =
     \<lparr>getGroupProjects = (\<lambda>g. Promise 3 (Inr [''p1'', ''p2''])),
      getAlerts = (\<lambda>g. Promise 1 (Inr [''alert''])),
      getDailyMetricData = (\<lambda>m i. Promise 2 (Inr (''data of '' @ m))),
      getProjectDailyCost = (\<lambda>p i. Promise 4 (Inr (''cost of project '' @ p))),
      getGroupDailyCost = (\<lambda>g i. Promise 4 (Inr (''cost of group '' @ g)))\<rparr>"

definition failing_client :: "(string, string, string, string, string) CostInsightsApi" where
  "failing_client =
     \<lparr>getGroupProjects = (\<lambda>g. Promise 3 (Inr [''p1'', ''p2''])),
      getAlerts = (\<lambda>g. Promise 5 (Inl (Error ''alerts unavailable''))),
      getDailyMetricData = (\<lambda>m i. Promise 2 (Inr (''data of '' @ m))),
      getProjectDailyCost = (\<lambda>p i. Promise 4 (Inr (''cost of project '' @ p))),
      getGroupDailyCost = (\<lambda>g i. Promise 2 (Inl (Error ''cost backend timed out'')))\<rparr>"

definition example_state :: "(string, string, string, string, loading_state) PageState" where
  "example_state =
     \<lparr>projects = Some [''old project''], dailyCost = Some ''old cost'',
      metricData = Some ''old data'', alerts = Some [],
      error = Some (Error ''stale''), loading = (\<lambda>a. True)\<rparr>"


section \<open>Properties of the identity lookup\<close>

lemma update_fresh: "k \<notin> fst ` set al \<Longrightarrow> AList.update k v al = al @ [(k, v)]"
  by (induction al) auto

lemma annotation_entries_fresh:
  "distinct (map fst es) \<Longrightarrow>
   (\<forall>key \<in> fst ` set es. ''metadata.annotations.'' @ key \<notin> fst ` set fltr) \<Longrightarrow>
   annotation_entries es fltr =
     fltr @ map (\<lambda>(key, val). (''metadata.annotations.'' @ key, val)) es"
proof (induction es arbitrary: fltr)
  case Nil
  then show ?case by simp
next
  case (Cons e es)
  obtain key val where e: "e = (key, val)" by (cases e)
  from Cons.prems e have fresh: "''metadata.annotations.'' @ key \<notin> fst ` set fltr" by simp
  have d: "distinct (map fst es)" using Cons.prems by simp
  have "\<forall>k \<in> fst ` set es. ''metadata.annotations.'' @ k \<notin> fst ` set (fltr @ [(''metadata.annotations.'' @ key, val)])"
    using Cons.prems e by auto
  from Cons.IH[OF d this] show ?case using e fresh by (simp add: update_fresh)
qed

lemma update_other_key:
  "k \<noteq> k0 \<Longrightarrow> [q \<leftarrow> AList.update k v al. fst q = k0] = [q \<leftarrow> al. fst q = k0]"
  by (induction al) auto

lemma annotation_entries_kind:
  "[q \<leftarrow> annotation_entries es fltr. fst q = ''kind''] = [q \<leftarrow> fltr. fst q = ''kind'']"
proof (induction es arbitrary: fltr)
  case Nil
  then show ?case by simp
next
  case (Cons e es)
  obtain key val where e: "e = (key, val)" by (cases e)
  show ?case unfolding e by (simp add: Cons.IH update_other_key)
qed

lemma map_of_own_key: "map_of al k = map_of [q \<leftarrow> al. fst q = k] k"
  by (induction al) auto

lemma user_filter_distinct:
  assumes "distinct (map fst (annotations query))"
  shows "user_filter query =
    (''kind'', ''user'') #
      map (\<lambda>(key, val). (''metadata.annotations.'' @ key, val)) (annotations query)"
  unfolding user_filter_def
  using annotation_entries_fresh[OF assms, of "[(''kind'', ''user'')]"] by simp

lemma findUser_requests: "fst (findUser catalogApi query) = [GetEntities (user_filter query)]"
  by (simp add: findUser_def Let_def)

lemma findUser_result:
  "snd (findUser catalogApi query) =
     (case getEntities catalogApi (user_filter query) of
        Inl e \<Rightarrow> Inl e
      | Inr users \<Rightarrow>
          (case users of
             [] \<Rightarrow> Inl (NotFoundError ''User not found'')
           | [u] \<Rightarrow> Inr u
           | _ \<Rightarrow> Inl (ConflictError ''User lookup resulted in multiple matches'')))"
  by (simp add: findUser_def Let_def split: sum.splits list.splits)

lemma findUser_rejection:
  "getEntities catalogApi (user_filter query) = Inl e \<Longrightarrow>
   snd (findUser catalogApi query) = Inl e"
  by (simp add: findUser_result)

text \<open>
  Claim C1 as stated fails in its last part: when the catalog call is rejected,
  \<open>findUser\<close> does not catch the rejection, and the caller gets an error that is neither
  the not-found nor the conflict error.
\<close>

theorem findUser_catalog_rejection_counterexample:
  "snd (findUser failing_catalog example_query) = Inl (Error ''catalog down'')"
  by (simp add: findUser_def failing_catalog_def)

text \<open>
  Claim C1, amended. Whatever the annotation query, once the catalog has answered:
  with no entity \<open>findUser\<close> fails with the not-found error, with two or more it fails
  with the conflict error, and with exactly one it returns that entity unchanged. A
  rejection of the catalog call reaches the caller unchanged. Not-found and conflict
  are the only two errors \<open>findUser\<close> throws itself: every error of \<open>findUser\<close> is one
  of the two or the rejection of the catalog call.
\<close>

theorem findUser_cardinality:
  "(\<forall>users. getEntities catalogApi (user_filter query) = Inr users \<longrightarrow>
      (length users = 0 \<longrightarrow>
         snd (findUser catalogApi query) = Inl (NotFoundError ''User not found'')) \<and>
      (2 \<le> length users \<longrightarrow>
         snd (findUser catalogApi query) =
           Inl (ConflictError ''User lookup resulted in multiple matches'')) \<and>
      (\<forall>u. users = [u] \<longrightarrow> snd (findUser catalogApi query) = Inr u)) \<and>
   (\<forall>e. getEntities catalogApi (user_filter query) = Inl e \<longrightarrow>
      snd (findUser catalogApi query) = Inl e) \<and>
   (\<forall>e. snd (findUser catalogApi query) = Inl e \<longrightarrow>
      e = NotFoundError ''User not found'' \<or>
      e = ConflictError ''User lookup resulted in multiple matches'' \<or>
      getEntities catalogApi (user_filter query) = Inl e)"
proof (intro conjI allI impI)
  fix users assume "getEntities catalogApi (user_filter query) = Inr users" "length users = 0"
  then show "snd (findUser catalogApi query) = Inl (NotFoundError ''User not found'')"
    by (simp add: findUser_result)
next
  fix users assume "getEntities catalogApi (user_filter query) = Inr users" "2 \<le> length users"
  then show "snd (findUser catalogApi query) =
      Inl (ConflictError ''User lookup resulted in multiple matches'')"
    by (auto simp: findUser_result split: list.splits)
next
  fix users u assume "getEntities catalogApi (user_filter query) = Inr users" "users = [u]"
  then show "snd (findUser catalogApi query) = Inr u"
    by (simp add: findUser_result)
next
  fix e assume "getEntities catalogApi (user_filter query) = Inl e"
  then show "snd (findUser catalogApi query) = Inl e"
    by (rule findUser_rejection)
next
  fix e
  assume "snd (findUser catalogApi query) = Inl e"
  then show "e = NotFoundError ''User not found'' \<or>
      e = ConflictError ''User lookup resulted in multiple matches'' \<or>
      getEntities catalogApi (user_filter query) = Inl e"
    by (auto simp: findUser_result split: sum.splits list.splits)
qed

theorem findUser_cardinality_witness:
  "getEntities (example_catalog []) (user_filter example_query) = Inr [] \<and>
   snd (findUser (example_catalog []) example_query) = Inl (NotFoundError ''User not found'') \<and>
   getEntities (example_catalog [''alice'', ''bob'']) (user_filter example_query) =
     Inr [''alice'', ''bob''] \<and>
   snd (findUser (example_catalog [''alice'', ''bob'']) example_query) =
     Inl (ConflictError ''User lookup resulted in multiple matches'') \<and>
   getEntities (example_catalog [''alice'']) (user_filter example_query) = Inr [''alice''] \<and>
   snd (findUser (example_catalog [''alice'']) example_query) = Inr ''alice'' \<and>
   getEntities failing_catalog (user_filter example_query) = Inl (Error ''catalog down'') \<and>
   snd (findUser failing_catalog example_query) = Inl (Error ''catalog down'')"
proof -
  have f: "map_of (user_filter example_query) ''kind'' = Some ''user''"
    by (simp add: user_filter_def example_query_def)
  have r: "getEntities (example_catalog users) (user_filter example_query) = Inr users" for users
    by (simp add: example_catalog_def f)
  have d: "getEntities failing_catalog (user_filter example_query) = Inl (Error ''catalog down'')"
    by (simp add: failing_catalog_def)
  from findUser_cardinality[of "example_catalog []" example_query] r
  have a: "snd (findUser (example_catalog []) example_query) =
      Inl (NotFoundError ''User not found'')"
    by simp
  from findUser_cardinality[of "example_catalog [''alice'', ''bob'']" example_query] r
  have b: "snd (findUser (example_catalog [''alice'', ''bob'']) example_query) =
      Inl (ConflictError ''User lookup resulted in multiple matches'')"
    by simp
  from findUser_cardinality[of "example_catalog [''alice'']" example_query] r
  have c: "snd (findUser (example_catalog [''alice'']) example_query) = Inr ''alice''"
    by simp
  from findUser_cardinality[of failing_catalog example_query] d
  have e: "snd (findUser failing_catalog example_query) = Inl (Error ''catalog down'')"
    by blast
  show ?thesis
    using r[of "[]"] a r[of "[''alice'', ''bob'']"] b r[of "[''alice'']"] c d e
    by (intro conjI)
qed

text \<open>
  Claim C7. \<open>findUser\<close> sends the catalog one request. Its filter is the entry
  \<open>kind = user\<close> followed by one entry per annotation key of the query, in the order
  of the query: the key is the dotted path \<open>metadata.annotations.<key>\<close> and the
  value is the query's value for that key. The filter has no other key and no key
  twice. The keys of the query are those of an object, hence distinct.
\<close>

theorem findUser_filter:
  assumes "distinct (map fst (annotations query))"
  shows "fst (findUser catalogApi query) = [GetEntities (user_filter query)] \<and>
    user_filter query =
      (''kind'', ''user'') #
        map (\<lambda>(key, val). (''metadata.annotations.'' @ key, val)) (annotations query) \<and>
    map_of (user_filter query) ''kind'' = Some ''user'' \<and>
    (\<forall>key val. (key, val) \<in> set (annotations query) \<longrightarrow>
       map_of (user_filter query) (''metadata.annotations.'' @ key) = Some val) \<and>
    fst ` set (user_filter query) =
      insert ''kind'' ((\<lambda>key. ''metadata.annotations.'' @ key) ` fst ` set (annotations query)) \<and>
    distinct (map fst (user_filter query)) \<and>
    length (user_filter query) = 1 + length (annotations query)"
proof -
  let ?f = "\<lambda>(key, val). (''metadata.annotations.'' @ key, val :: string)"
  let ?es = "annotations query"
  have eq: "user_filter query = (''kind'', ''user'') # map ?f ?es"
    by (rule user_filter_distinct[OF assms])
  have keys: "map fst (map ?f ?es) = map (\<lambda>key. ''metadata.annotations.'' @ key) (map fst ?es)"
    by (induction ?es) auto
  have inj: "inj_on (\<lambda>key. ''metadata.annotations.'' @ key) (set (map fst ?es))"
    by (rule inj_onI) simp
  have d: "distinct (map fst (map ?f ?es))"
    unfolding keys using assms inj by (simp only: distinct_map)
  have nk: "''kind'' \<notin> set (map fst (map ?f ?es))"
    unfolding keys by auto
  have c1: "fst (findUser catalogApi query) = [GetEntities (user_filter query)]"
    by (rule findUser_requests)
  have c3: "map_of (user_filter query) ''kind'' = Some ''user''"
    unfolding eq by simp
  have c4: "\<forall>key val. (key, val) \<in> set ?es \<longrightarrow>
      map_of (user_filter query) (''metadata.annotations.'' @ key) = Some val"
  proof (intro allI impI)
    fix key val assume "(key, val) \<in> set ?es"
    then have "(''metadata.annotations.'' @ key, val) \<in> set (map ?f ?es)"
      by force
    with d have "map_of (map ?f ?es) (''metadata.annotations.'' @ key) = Some val"
      by (rule_tac map_of_is_SomeI)
    then show "map_of (user_filter query) (''metadata.annotations.'' @ key) = Some val"
      unfolding eq by simp
  qed
  have c5: "fst ` set (user_filter query) =
      insert ''kind'' ((\<lambda>key. ''metadata.annotations.'' @ key) ` fst ` set ?es)"
    unfolding eq by force
  have c6: "distinct (map fst (user_filter query))"
    unfolding eq using d nk by simp
  have c7: "length (user_filter query) = 1 + length ?es"
    unfolding eq by simp
  show ?thesis
    by (intro conjI) (fact c1, fact eq, fact c3, fact c4, fact c5, fact c6, fact c7)
qed

theorem findUser_filter_witness:
  "distinct (map fst (annotations example_query)) \<and>
   fst (findUser (example_catalog [''alice'']) example_query) =
     [GetEntities [(''kind'', ''user''), (''metadata.annotations.kind'', ''group''),
        (''metadata.annotations.google.com/email'', ''alice@example.com'')]]"
proof -
  have d: "distinct (map fst (annotations example_query))"
    by (simp add: example_query_def)
  show ?thesis
    using d findUser_filter[OF d, of "example_catalog [''alice'']"]
    by (simp add: example_query_def)
qed

text \<open>
  Claim C9. Whatever the annotation query, the filter sent by \<open>findUser\<close> has exactly
  one entry under the key \<open>kind\<close>, and its value is \<open>user\<close>: every annotation key is
  written under \<open>metadata.annotations.\<close>, so none of them, not even a key named
  \<open>kind\<close>, overwrites or removes it.
\<close>

theorem findUser_keeps_kind:
  "fst (findUser catalogApi query) = [GetEntities (user_filter query)] \<and>
   [q \<leftarrow> user_filter query. fst q = ''kind''] = [(''kind'', ''user'')] \<and>
   map_of (user_filter query) ''kind'' = Some ''user''"
proof -
  have k: "[q \<leftarrow> user_filter query. fst q = ''kind''] = [(''kind'', ''user'')]"
    by (simp add: user_filter_def annotation_entries_kind)
  have "map_of (user_filter query) ''kind'' = map_of [q \<leftarrow> user_filter query. fst q = ''kind''] ''kind''"
    by (rule map_of_own_key)
  then show ?thesis using k by (simp add: findUser_requests)
qed

theorem findUser_keeps_kind_witness:
  "map_of (user_filter \<lparr>annotations = [(''kind'', ''group'')]\<rparr>) ''kind'' = Some ''user'' \<and>
   user_filter \<lparr>annotations = [(''kind'', ''group'')]\<rparr> =
     [(''kind'', ''user''), (''metadata.annotations.kind'', ''group'')]"
  using findUser_keeps_kind[of "example_catalog []" "\<lparr>annotations = [(''kind'', ''group'')]\<rparr>"]
  by (simp add: user_filter_def)


section \<open>Properties of the dashboard loader\<close>

lemma both_outcome:
  "outcome (both p q) =
     (case outcome p of
        Inr a \<Rightarrow> (case outcome q of Inr b \<Rightarrow> Inr (a, b) | Inl e \<Rightarrow> Inl e)
      | Inl e1 \<Rightarrow> (case outcome q of Inr b \<Rightarrow> Inl e1
                   | Inl e2 \<Rightarrow> if settled_at p \<le> settled_at q then Inl e1 else Inl e2))"
proof (cases p)
  case p: (Promise t1 r1)
  show ?thesis
  proof (cases q)
    case q: (Promise t2 r2)
    show ?thesis unfolding p q by (cases r1; cases r2) simp_all
  qed
qed

lemma Promise_all_fulfilled:
  "outcome (Promise_all p1 p2 p3 p4) = Inr v \<longleftrightarrow>
     outcome p1 = Inr (fst v) \<and> outcome p2 = Inr (fst (snd v)) \<and>
     outcome p3 = Inr (fst (snd (snd v))) \<and> outcome p4 = Inr (snd (snd (snd v)))"
  unfolding Promise_all_def both_outcome
  by (cases v) (auto split: sum.splits)


lemma Promise_all_isl:
  "isl (outcome (Promise_all p1 p2 p3 p4)) \<longleftrightarrow>
     isl (outcome p1) \<or> isl (outcome p2) \<or> isl (outcome p3) \<or> isl (outcome p4)"
  unfolding Promise_all_def both_outcome
  by (auto split: sum.splits if_splits)


lemma getInsights_no_group:
  assumes "truthy (group pageFilters) = None"
  shows "getInsights client ctx props pageFilters st =
    ([], st\<lparr>error := None,
             loading := dispatchInsights props False (dispatchInitial props False
               (dispatchNone props (loadingActions props) (loading st)))\<rparr>)"
  using assms by (simp add: getInsights_def try_fetch_def)

lemma getInsights_requests:
  assumes "truthy (group pageFilters) = Some g"
  shows "fst (getInsights client ctx props pageFilters st) =
    [GetGroupProjects g, GetAlerts g] @
    fst (metric_entry client pageFilters
          (intervalsOf ctx (duration pageFilters) (lastCompleteBillingDate ctx))) @
    fst (daily_cost_entry client pageFilters g
          (intervalsOf ctx (duration pageFilters) (lastCompleteBillingDate ctx)))"
  using assms
  by (simp add: getInsights_def try_fetch_def Let_def case_prod_beta split: sum.splits)

lemma getInsights_fulfilled:
  assumes "truthy (group pageFilters) = Some g"
    and "outcome (Promise_all (getGroupProjects client g) (getAlerts client g)
          (snd (metric_entry client pageFilters
                 (intervalsOf ctx (duration pageFilters) (lastCompleteBillingDate ctx))))
          (snd (daily_cost_entry client pageFilters g
                 (intervalsOf ctx (duration pageFilters) (lastCompleteBillingDate ctx)))))
       = Inr (ps, als, m, c)"
  shows "snd (getInsights client ctx props pageFilters st) =
    st\<lparr>projects := Some ps, dailyCost := Some c, metricData := m, alerts := Some als,
       error := None,
       loading := dispatchInsights props False (dispatchInitial props False
         (dispatchInsights props True (loading st)))\<rparr>"
  using assms
  by (simp add: getInsights_def try_fetch_def Let_def case_prod_beta)

lemma getInsights_rejected:
  assumes "truthy (group pageFilters) = Some g"
    and "outcome (Promise_all (getGroupProjects client g) (getAlerts client g)
          (snd (metric_entry client pageFilters
                 (intervalsOf ctx (duration pageFilters) (lastCompleteBillingDate ctx))))
          (snd (daily_cost_entry client pageFilters g
                 (intervalsOf ctx (duration pageFilters) (lastCompleteBillingDate ctx)))))
       = Inl e"
  shows "snd (getInsights client ctx props pageFilters st) =
    st\<lparr>error := Some e,
       loading := dispatchInsights props False (dispatchInitial props False
         (dispatchNone props (loadingActions props) (dispatchInsights props True (loading st))))\<rparr>"
  using assms
  by (simp add: getInsights_def try_fetch_def Let_def case_prod_beta)

lemma metric_entry_requests:
  "fst (metric_entry client pageFilters i) =
     (case truthy (metric pageFilters) of Some m \<Rightarrow> [GetDailyMetricData m i] | None \<Rightarrow> [])"
  by (simp add: metric_entry_def split: option.splits)

lemma daily_cost_entry_requests:
  "fst (daily_cost_entry client pageFilters g i) =
     (case truthy (project pageFilters) of
        Some p \<Rightarrow> [GetProjectDailyCost p i]
      | None \<Rightarrow> [GetGroupDailyCost g i])"
  by (simp add: daily_cost_entry_def split: option.splits)

text \<open>
  Claim C2. With no group selected (the group filter is \<open>null\<close> or the empty string),
  a run of the loader calls none of the fetch functions of the cost API, whatever the
  client, the other filters and the state before, and it leaves no error. The page
  then renders the no-groups view: the run has put the flag of the initial load in its
  "not loading" state, which is stated for the loading state modelled from the spec.
\<close>

theorem no_group_no_fetch:
  fixes client :: "('i, 'p, 'a, 'm, 'c) CostInsightsApi"
    and ctx :: "('d, 'i) PageContext"
    and props :: "('l, 'k) LoadingProps"
    and pageFilters :: "'d PageFilters"
    and st :: "('p, 'a, 'm, 'c, 'l) PageState"
    and stm :: "('p, 'a, 'm, 'c, loading_state) PageState"
  assumes "truthy (group pageFilters) = None"
  shows "fst (getInsights client ctx props pageFilters st) = [] \<and>
    error (snd (getInsights client ctx props pageFilters st)) = None \<and>
    CostInsightsPage (useLoading actions) pageFilters
      (snd (getInsights client ctx (useLoading actions) pageFilters stm)) = NoGroupsView"
  by (simp add: getInsights_no_group[OF assms] CostInsightsPage_def useLoading_def assms)

theorem no_group_no_fetch_witness:
  "truthy (group (example_filters\<lparr>group := None\<rparr>)) = None \<and>
   truthy (group (example_filters\<lparr>group := Some []\<rparr>)) = None \<and>
   fst (getInsights failing_client example_context example_loading
         (example_filters\<lparr>group := None\<rparr>) example_state) = [] \<and>
   CostInsightsPage (useLoading [Initial, Insights, Action ''products''])
     (example_filters\<lparr>group := Some []\<rparr>)
     (snd (getInsights failing_client example_context
            (useLoading [Initial, Insights, Action ''products''])
            (example_filters\<lparr>group := Some []\<rparr>) example_state)) = NoGroupsView"
proof -
  have h1: "truthy (group (example_filters\<lparr>group := None\<rparr>)) = None"
    by simp
  have h2: "truthy (group (example_filters\<lparr>group := Some []\<rparr>)) = None"
    by simp
  note none = no_group_no_fetch[where client = failing_client and ctx = example_context
      and props = example_loading and st = example_state and stm = example_state
      and actions = "[Initial, Insights, Action ''products'']", OF h1]
  note empty = no_group_no_fetch[where client = failing_client and ctx = example_context
      and props = example_loading and st = example_state and stm = example_state
      and actions = "[Initial, Insights, Action ''products'']", OF h2]
  from none have a: "fst (getInsights failing_client example_context example_loading
      (example_filters\<lparr>group := None\<rparr>) example_state) = []"
    by (rule conjunct1)
  from empty have b: "CostInsightsPage (useLoading [Initial, Insights, Action ''products''])
     (example_filters\<lparr>group := Some []\<rparr>)
     (snd (getInsights failing_client example_context
            (useLoading [Initial, Insights, Action ''products''])
            (example_filters\<lparr>group := Some []\<rparr>) example_state)) = NoGroupsView"
    by (elim conjE)
  show ?thesis
    using h1 h2 a b by (intro conjI)
qed

text \<open>
  Claim C3. With a group selected: when no project is selected (the project filter is
  \<open>null\<close>, or empty) the loader calls \<open>getGroupDailyCost\<close> with that group and never
  \<open>getProjectDailyCost\<close>; when a project is selected it calls \<open>getProjectDailyCost\<close>
  with that project and never \<open>getGroupDailyCost\<close>.
\<close>

theorem daily_cost_request:
  fixes client :: "('i, 'p, 'a, 'm, 'c) CostInsightsApi"
    and ctx :: "('d, 'i) PageContext"
    and props :: "('l, 'k) LoadingProps"
    and pageFilters :: "'d PageFilters"
    and st :: "('p, 'a, 'm, 'c, 'l) PageState"
  defines "i \<equiv> intervalsOf ctx (duration pageFilters) (lastCompleteBillingDate ctx)"
  defines "requests \<equiv> fst (getInsights client ctx props pageFilters st)"
  assumes "truthy (group pageFilters) = Some g"
  shows "(truthy (project pageFilters) = None \<longrightarrow>
       GetGroupDailyCost g i \<in> set requests \<and>
       (\<forall>p j. GetProjectDailyCost p j \<notin> set requests)) \<and>
    (\<forall>p. truthy (project pageFilters) = Some p \<longrightarrow>
       GetProjectDailyCost p i \<in> set requests \<and>
       (\<forall>g' j. GetGroupDailyCost g' j \<notin> set requests))"
  unfolding requests_def i_def getInsights_requests[OF assms(3)]
    metric_entry_requests daily_cost_entry_requests
  by (auto split: option.splits)

theorem daily_cost_request_witness:
  "truthy (group example_filters) = Some ''team-a'' \<and>
   truthy (project example_filters) = None \<and>
   truthy (project (example_filters\<lparr>project := Some ''p1''\<rparr>)) = Some ''p1'' \<and>
   GetGroupDailyCost ''team-a'' ''P30D/2020-10-01''
     \<in> set (fst (getInsights example_client example_context example_loading
         example_filters example_state)) \<and>
   GetProjectDailyCost ''p1'' ''P30D/2020-10-01''
     \<in> set (fst (getInsights example_client example_context example_loading
                  (example_filters\<lparr>project := Some ''p1''\<rparr>) example_state))"
proof -
  have g: "truthy (group example_filters) = Some ''team-a''"
    by (simp add: example_filters_def)
  have g': "truthy (group (example_filters\<lparr>project := Some ''p1''\<rparr>)) = Some ''team-a''"
    by (simp add: example_filters_def)
  have p: "truthy (project example_filters) = None"
    by (simp add: example_filters_def)
  have p': "truthy (project (example_filters\<lparr>project := Some ''p1''\<rparr>)) = Some ''p1''"
    by simp
  have i: "intervalsOf example_context (duration example_filters)
      (lastCompleteBillingDate example_context) = ''P30D/2020-10-01''"
    by (simp add: example_context_def example_filters_def)
  show ?thesis
    using daily_cost_request[where client = example_client and ctx = example_context
        and props = example_loading
          and st = example_state, OF g]
      daily_cost_request[where client = example_client and ctx = example_context
          and props = example_loading
          and st = example_state, OF g']
    by (simp add: g p i)
qed

text \<open>
  Claim C4. With a group selected, the four resource states change all or nothing.
  When every request of the run is fulfilled, projects and alerts are replaced by the
  answers of \<open>getGroupProjects\<close> and \<open>getAlerts\<close>, the metric data by the answer of
  \<open>getDailyMetricData\<close> (by \<open>null\<close> when no metric is selected, as no request is made),
  and the daily cost by the answer of \<open>getProjectDailyCost\<close> when a project is selected
  and of \<open>getGroupDailyCost\<close> otherwise. When any request of the run is rejected, the
  four keep the values they had before the run.
\<close>

theorem resources_all_or_nothing:
  fixes client :: "('i, 'p, 'a, 'm, 'c) CostInsightsApi"
    and ctx :: "('d, 'i) PageContext"
    and props :: "('l, 'k) LoadingProps"
    and pageFilters :: "'d PageFilters"
    and st :: "('p, 'a, 'm, 'c, 'l) PageState"
    and g :: string
  defines "i \<equiv> intervalsOf ctx (duration pageFilters) (lastCompleteBillingDate ctx)"
  defines "cost \<equiv>
    (case truthy (project pageFilters) of
       Some p \<Rightarrow> getProjectDailyCost client p i
     | None \<Rightarrow> getGroupDailyCost client g i)"
  defines "st' \<equiv> snd (getInsights client ctx props pageFilters st)"
  assumes g: "truthy (group pageFilters) = Some g"
  shows "(\<forall>ps als c.
        outcome (getGroupProjects client g) = Inr ps \<and> outcome (getAlerts client g) = Inr als \<and>
        outcome cost = Inr c \<longrightarrow>
        (truthy (metric pageFilters) = None \<longrightarrow>
           projects st' = Some ps \<and> alerts st' = Some als \<and> metricData st' = None \<and>
           dailyCost st' = Some c) \<and>
        (\<forall>mt md. truthy (metric pageFilters) = Some mt \<and>
             outcome (getDailyMetricData client mt i) = Inr md \<longrightarrow>
           projects st' = Some ps \<and> alerts st' = Some als \<and> metricData st' = Some md \<and>
           dailyCost st' = Some c)) \<and>
    (isl (outcome (getGroupProjects client g)) \<or> isl (outcome (getAlerts client g)) \<or>
     (\<exists>mt. truthy (metric pageFilters) = Some mt \<and>
        isl (outcome (getDailyMetricData client mt i))) \<or>
     isl (outcome cost) \<longrightarrow>
        projects st' = projects st \<and> alerts st' = alerts st \<and>
        metricData st' = metricData st \<and> dailyCost st' = dailyCost st)"
proof -
  let ?p1 = "getGroupProjects client g" and ?p2 = "getAlerts client g"
  let ?p3 = "snd (metric_entry client pageFilters i)"
  let ?p4 = "snd (daily_cost_entry client pageFilters g i)"
  have p4: "?p4 = cost"
    by (simp add: daily_cost_entry_def cost_def split: option.splits)
  have p3_none: "outcome ?p3 = Inr None" if "truthy (metric pageFilters) = None"
    using that by (simp add: metric_entry_def)
  have p3_some: "outcome ?p3 = map_sum id Some (outcome (getDailyMetricData client mt i))"
    if "truthy (metric pageFilters) = Some mt" for mt
    using that by (simp add: metric_entry_def promise.map_sel)
  have ok: "projects st' = Some ps \<and> alerts st' = Some als \<and> metricData st' = m \<and>
      dailyCost st' = Some c"
    if "outcome ?p1 = Inr ps" "outcome ?p2 = Inr als" "outcome ?p3 = Inr m" "outcome cost = Inr c"
    for ps als m c
  proof -
    from that have "outcome (Promise_all ?p1 ?p2 ?p3 ?p4) = Inr (ps, als, m, c)"
      by (simp add: Promise_all_fulfilled p4)
    then have "st' = st\<lparr>projects := Some ps, dailyCost := Some c, metricData := m,
        alerts := Some als, error := None,
        loading := dispatchInsights props False (dispatchInitial props False
          (dispatchInsights props True (loading st)))\<rparr>"
      unfolding st'_def i_def by (rule getInsights_fulfilled[OF g])
    then show ?thesis by simp
  qed
  have ko: "projects st' = projects st \<and> alerts st' = alerts st \<and>
      metricData st' = metricData st \<and> dailyCost st' = dailyCost st"
    if "isl (outcome ?p1) \<or> isl (outcome ?p2) \<or> isl (outcome ?p3) \<or> isl (outcome cost)"
  proof -
    from that have "isl (outcome (Promise_all ?p1 ?p2 ?p3 ?p4))"
      by (simp add: Promise_all_isl p4)
    then obtain e where "outcome (Promise_all ?p1 ?p2 ?p3 ?p4) = Inl e"
      by (auto simp: isl_def)
    then have "st' = st\<lparr>error := Some e,
        loading := dispatchInsights props False (dispatchInitial props False
          (dispatchNone props (loadingActions props)
            (dispatchInsights props True (loading st))))\<rparr>"
      unfolding st'_def i_def by (rule getInsights_rejected[OF g])
    then show ?thesis by simp
  qed
  have fulfilled: "(truthy (metric pageFilters) = None \<longrightarrow>
         projects st' = Some ps \<and> alerts st' = Some als \<and> metricData st' = None \<and>
         dailyCost st' = Some c) \<and>
      (\<forall>mt md. truthy (metric pageFilters) = Some mt \<and>
           outcome (getDailyMetricData client mt i) = Inr md \<longrightarrow>
         projects st' = Some ps \<and> alerts st' = Some als \<and> metricData st' = Some md \<and>
         dailyCost st' = Some c)"
    if h: "outcome ?p1 = Inr ps \<and> outcome ?p2 = Inr als \<and> outcome cost = Inr c" for ps als c
  proof -
    have none: "projects st' = Some ps \<and> alerts st' = Some als \<and> metricData st' = None \<and>
        dailyCost st' = Some c"
      if "truthy (metric pageFilters) = None"
    proof -
      from that have "outcome ?p3 = Inr None" by (rule p3_none)
      with h ok[of ps als None c] show ?thesis by simp
    qed
    have some: "projects st' = Some ps \<and> alerts st' = Some als \<and>
        metricData st' = Some md \<and> dailyCost st' = Some c"
      if "truthy (metric pageFilters) = Some mt \<and>
        outcome (getDailyMetricData client mt i) = Inr md" for mt md
    proof -
      from that have "outcome ?p3 = Inr (Some md)" by (simp add: p3_some)
      with h ok[of ps als "Some md" c] show ?thesis by simp
    qed
    show ?thesis using none some by blast
  qed
  have rejected: "projects st' = projects st \<and> alerts st' = alerts st \<and>
      metricData st' = metricData st \<and> dailyCost st' = dailyCost st"
    if h: "isl (outcome ?p1) \<or> isl (outcome ?p2) \<or>
      (\<exists>mt. truthy (metric pageFilters) = Some mt \<and>
         isl (outcome (getDailyMetricData client mt i))) \<or>
      isl (outcome cost)"
  proof -
    have "isl (outcome ?p3)"
      if "truthy (metric pageFilters) = Some mt" "isl (outcome (getDailyMetricData client mt i))"
      for mt
      using that by (simp add: p3_some isl_map_sum)
    with h have "isl (outcome ?p1) \<or> isl (outcome ?p2) \<or> isl (outcome ?p3) \<or>
        isl (outcome cost)"
      by blast
    then show ?thesis by (rule ko)
  qed
  show ?thesis
    using fulfilled rejected by blast
qed

theorem resources_all_or_nothing_witness:
  "truthy (group (example_filters\<lparr>project := Some ''p1'', metric := Some ''dau''\<rparr>))
     = Some ''team-a'' \<and>
   projects (snd (getInsights example_client example_context example_loading
       (example_filters\<lparr>project := Some ''p1'', metric := Some ''dau''\<rparr>) example_state))
     = Some [''p1'', ''p2''] \<and>
   alerts (snd (getInsights example_client example_context example_loading
       (example_filters\<lparr>project := Some ''p1'', metric := Some ''dau''\<rparr>) example_state))
     = Some [''alert''] \<and>
   metricData (snd (getInsights example_client example_context example_loading
       (example_filters\<lparr>project := Some ''p1'', metric := Some ''dau''\<rparr>) example_state))
     = Some ''data of dau'' \<and>
   dailyCost (snd (getInsights example_client example_context example_loading
       (example_filters\<lparr>project := Some ''p1'', metric := Some ''dau''\<rparr>) example_state))
     = Some ''cost of project p1'' \<and>
   truthy (group example_filters) = Some ''team-a'' \<and>
   metricData (snd (getInsights example_client example_context example_loading
       example_filters example_state)) = None \<and>
   dailyCost (snd (getInsights example_client example_context example_loading
       example_filters example_state)) = Some ''cost of group team-a'' \<and>
   isl (outcome (getAlerts failing_client ''team-a'')) \<and>
   projects (snd (getInsights failing_client example_context example_loading
       example_filters example_state)) = Some [''old project''] \<and>
   alerts (snd (getInsights failing_client example_context example_loading
       example_filters example_state)) = Some [] \<and>
   metricData (snd (getInsights failing_client example_context example_loading
       example_filters example_state)) = Some ''old data'' \<and>
   dailyCost (snd (getInsights failing_client example_context example_loading
       example_filters example_state)) = Some ''old cost''"
proof -
  let ?both = "example_filters\<lparr>project := Some ''p1'', metric := Some ''dau''\<rparr>"
  have g: "truthy (group example_filters) = Some ''team-a''"
    by (simp add: example_filters_def)
  have g': "truthy (group ?both) = Some ''team-a''"
    by (simp add: example_filters_def)
  have sel: "truthy (project ?both) = Some ''p1''" "truthy (metric ?both) = Some ''dau''"
    "truthy (project example_filters) = None" "truthy (metric example_filters) = None"
    by (simp_all add: example_filters_def)
  have r: "isl (outcome (getAlerts failing_client ''team-a''))"
    by (simp add: failing_client_def)
  have answers:
    "outcome (getGroupProjects example_client ''team-a'') = Inr [''p1'', ''p2'']"
    "outcome (getAlerts example_client ''team-a'') = Inr [''alert'']"
    "outcome (getDailyMetricData example_client ''dau'' j) = Inr ''data of dau''"
    "outcome (getProjectDailyCost example_client ''p1'' j) = Inr ''cost of project p1''"
    "outcome (getGroupDailyCost example_client ''team-a'' j) = Inr ''cost of group team-a''"
    for j
    by (simp_all add: example_client_def)
  have old: "projects example_state = Some [''old project'']" "alerts example_state = Some []"
    "metricData example_state = Some ''old data''" "dailyCost example_state = Some ''old cost''"
    by (simp_all add: example_state_def)
  note chosen = resources_all_or_nothing[where client = example_client
      and ctx = example_context and props = example_loading and st = example_state, OF g']
  note plain = resources_all_or_nothing[where client = example_client
      and ctx = example_context and props = example_loading and st = example_state, OF g]
  note failed = resources_all_or_nothing[where client = failing_client
      and ctx = example_context and props = example_loading and st = example_state, OF g]
  from chosen have a: "projects (snd (getInsights example_client example_context example_loading
        ?both example_state)) = Some [''p1'', ''p2''] \<and>
      alerts (snd (getInsights example_client example_context example_loading
        ?both example_state)) = Some [''alert''] \<and>
      metricData (snd (getInsights example_client example_context example_loading
        ?both example_state)) = Some ''data of dau'' \<and>
      dailyCost (snd (getInsights example_client example_context example_loading
        ?both example_state)) = Some ''cost of project p1''"
    by (simp add: sel answers)
  from plain have b: "metricData (snd (getInsights example_client example_context
        example_loading example_filters example_state)) = None \<and>
      dailyCost (snd (getInsights example_client example_context example_loading
        example_filters example_state)) = Some ''cost of group team-a''"
    by (simp add: sel answers)
  from failed r have c: "projects (snd (getInsights failing_client example_context
        example_loading example_filters example_state)) = Some [''old project''] \<and>
      alerts (snd (getInsights failing_client example_context example_loading
        example_filters example_state)) = Some [] \<and>
      metricData (snd (getInsights failing_client example_context example_loading
        example_filters example_state)) = Some ''old data'' \<and>
      dailyCost (snd (getInsights failing_client example_context example_loading
        example_filters example_state)) = Some ''old cost''"
    by (simp add: old)
  show ?thesis
    using g' a g b r c by (intro conjI) simp_all
qed



text \<open>
  Claim C6 as stated fails: with the group \<open>team-a\<close> selected and no metric selected,
  the loader issues three requests, and none of them is for the metric time series.
\<close>

theorem metric_request_only_with_metric_counterexample:
  "truthy (group example_filters) = Some ''team-a'' \<and>
   fst (getInsights example_client example_context example_loading example_filters example_state) =
     [GetGroupProjects ''team-a'', GetAlerts ''team-a'',
      GetGroupDailyCost ''team-a'' ''P30D/2020-10-01'']"
  by (simp add: getInsights_def try_fetch_def metric_entry_def daily_cost_entry_def
      Promise_all_def example_filters_def example_context_def example_client_def)

text \<open>
  Claim C6, amended. With a group selected, the loader issues, before awaiting any
  answer and whatever the answers are, the requests for the group's projects, for its
  alerts and for the daily cost, and the request for the metric time series only when
  a metric is selected.
\<close>

theorem requests_of_a_run:
  fixes client :: "('i, 'p, 'a, 'm, 'c) CostInsightsApi"
    and ctx :: "('d, 'i) PageContext"
    and props :: "('l, 'k) LoadingProps"
    and pageFilters :: "'d PageFilters"
    and st :: "('p, 'a, 'm, 'c, 'l) PageState"
  defines "i \<equiv> intervalsOf ctx (duration pageFilters) (lastCompleteBillingDate ctx)"
  assumes g: "truthy (group pageFilters) = Some g"
  shows "fst (getInsights client ctx props pageFilters st) =
    [GetGroupProjects g, GetAlerts g] @
    (case truthy (metric pageFilters) of
       Some m \<Rightarrow> [GetDailyMetricData m i]
     | None \<Rightarrow> []) @
    (case truthy (project pageFilters) of
       Some p \<Rightarrow> [GetProjectDailyCost p i]
     | None \<Rightarrow> [GetGroupDailyCost g i])"
  unfolding i_def getInsights_requests[OF g] metric_entry_requests daily_cost_entry_requests
  by (rule refl)

theorem requests_of_a_run_witness:
  "truthy (group (example_filters\<lparr>metric := Some ''dau''\<rparr>)) = Some ''team-a'' \<and>
   fst (getInsights failing_client example_context example_loading (example_filters\<lparr>metric := Some ''dau''\<rparr>)
         example_state) =
     [GetGroupProjects ''team-a'', GetAlerts ''team-a'',
      GetDailyMetricData ''dau'' ''P30D/2020-10-01'',
      GetGroupDailyCost ''team-a'' ''P30D/2020-10-01'']"
proof -
  have g: "truthy (group (example_filters\<lparr>metric := Some ''dau''\<rparr>)) = Some ''team-a''"
    by (simp add: example_filters_def)
  show ?thesis
    using requests_of_a_run[where client = failing_client and ctx = example_context
        and props = example_loading
        and st = example_state, OF g]
    by (simp add: g example_filters_def example_context_def)
qed

text \<open>
  Claim C8. Selecting the project \<open>all\<close> stores \<open>null\<close> as the project filter, the same
  filters as selecting \<open>null\<close>; a fetch under these filters, with a group selected,
  calls \<open>getGroupDailyCost\<close> with the group and never \<open>getProjectDailyCost\<close>.
\<close>

theorem setProject_all:
  fixes client :: "('i, 'p, 'a, 'm, 'c) CostInsightsApi"
    and ctx :: "('d, 'i) PageContext"
    and props :: "('l, 'k) LoadingProps"
    and pageFilters :: "'d PageFilters"
    and st :: "('p, 'a, 'm, 'c, 'l) PageState"
  defines "i \<equiv> intervalsOf ctx (duration pageFilters) (lastCompleteBillingDate ctx)"
  defines "requests \<equiv>
    fst (getInsights client ctx props (setProject (Some ''all'') pageFilters) st)"
  shows "project (setProject (Some ''all'') pageFilters) = None \<and>
    setProject (Some ''all'') pageFilters = setProject None pageFilters \<and>
    (\<forall>g. truthy (group pageFilters) = Some g \<longrightarrow>
       GetGroupDailyCost g i \<in> set requests \<and>
       (\<forall>p j. GetProjectDailyCost p j \<notin> set requests))"
proof -
  have "GetGroupDailyCost g i \<in> set requests \<and>
      (\<forall>p j. GetProjectDailyCost p j \<notin> set requests)"
    if "truthy (group pageFilters) = Some g" for g
  proof -
    from that have g: "truthy (group (setProject (Some ''all'') pageFilters)) = Some g"
      by (simp add: setProject_def)
    show ?thesis
      unfolding requests_def i_def getInsights_requests[OF g]
        metric_entry_requests daily_cost_entry_requests
      by (auto simp: setProject_def split: option.splits)
  qed
  then show ?thesis
    by (simp add: setProject_def)
qed

theorem setProject_all_witness:
  "truthy (group (example_filters\<lparr>project := Some ''p1''\<rparr>)) = Some ''team-a'' \<and>
   project (setProject (Some ''all'') (example_filters\<lparr>project := Some ''p1''\<rparr>)) = None \<and>
   GetGroupDailyCost ''team-a'' ''P30D/2020-10-01''
     \<in> set (fst (getInsights example_client example_context example_loading
                  (setProject (Some ''all'') (example_filters\<lparr>project := Some ''p1''\<rparr>))
                  example_state))"
proof -
  have g: "truthy (group (example_filters\<lparr>project := Some ''p1''\<rparr>)) = Some ''team-a''"
    by (simp add: example_filters_def)
  have i: "intervalsOf example_context (duration (example_filters\<lparr>project := Some ''p1''\<rparr>))
      (lastCompleteBillingDate example_context) = ''P30D/2020-10-01''"
    by (simp add: example_context_def example_filters_def)
  note run = setProject_all[where client = example_client and ctx = example_context
      and props = example_loading
      and st = example_state and pageFilters = "example_filters\<lparr>project := Some ''p1''\<rparr>"]
  from run have a:
    "project (setProject (Some ''all'') (example_filters\<lparr>project := Some ''p1''\<rparr>)) = None"
    by (rule conjunct1)
  from run g have b: "GetGroupDailyCost ''team-a''
      (intervalsOf example_context (duration (example_filters\<lparr>project := Some ''p1''\<rparr>))
        (lastCompleteBillingDate example_context))
     \<in> set (fst (getInsights example_client example_context example_loading
                  (setProject (Some ''all'') (example_filters\<lparr>project := Some ''p1''\<rparr>))
                  example_state))"
    by blast
  show ?thesis
    using g a b unfolding i by (intro conjI)
qed



end
